theory Spec2Isabelle
  imports Complex_Main
begin

section \<open>Data model\<close>

text \<open>
  The task service of \<^verbatim>\<open>src/routes/taskRoutes.js\<close>, with the schema of
  \<^verbatim>\<open>src/models/task.js\<close> and the request validator \<^verbatim>\<open>validateTask\<close>.
  The \<^verbatim>\<open>Task\<close> collection is a list of documents in insertion order; every handler
  takes the collection and the request and returns the collection it leaves behind
  together with the response it sends.
\<close>

text \<open>An ObjectId, written as its 24 lower-case hexadecimal digits.\<close>

type_synonym oid = string

text \<open>
  A document of the \<^verbatim>\<open>Task\<close> model: \<^verbatim>\<open>_id\<close>, the five paths of \<^verbatim>\<open>taskSchema\<close> and the
  two timestamps that \<^verbatim>\<open>timestamps: true\<close> adds. \<^verbatim>\<open>description\<close> and \<^verbatim>\<open>image\<close> have no
  default and may be absent.
\<close>

record task =
  task_id :: oid
  title :: string
  description :: "string option"
  status :: string
  user :: oid
  image_path :: "string option"
  createdAt :: nat
  updatedAt :: nat

type_synonym store = "task list"

text \<open>
  A parsed JSON request body. An object lists its own properties in order. A string
  is written as the bytes of its UTF-8 encoding, here and everywhere else.
\<close>

datatype json =
    JNull
  | JBool bool
  | JNum int
  | JStr string
  | JArr "json list"
  | JObj "(string \<times> json) list"

text \<open>
  What a handler reads of the Express request: \<^verbatim>\<open>req.user.userId\<close> (set by the
  authentication middleware, which every task route runs first), \<^verbatim>\<open>req.params.id\<close>,
  \<^verbatim>\<open>req.body\<close>, \<^verbatim>\<open>req.query\<close> and, when the upload middleware stored a file,
  \<^verbatim>\<open>req.file.filename\<close>.
\<close>

record request =
  user_id :: string
  param_id :: string
  body :: json
  query :: "(string \<times> string) list"
  req_file :: "string option"

text \<open>
  Exceptions that reach a handler's \<^verbatim>\<open>catch\<close>. A \<^verbatim>\<open>ReferenceError\<close> carries the
  engine's message; the library errors carry what identifies them (the value and path
  of a failed cast, the paths that failed validation), their message text is the
  library's. \<open>Error\<close> is a plain \<^verbatim>\<open>Error\<close> with its message.
\<close>

datatype exn =
    ReferenceError string
  | CastError string string
  | ValidationError "string list"
  | DuplicateKey oid
  | Error string

datatype errtext = Text string | MessageOf exn

text \<open>
  The pagination of the list response. \<^verbatim>\<open>currentPage\<close> and \<^verbatim>\<open>totalPages\<close> are numbers
  the handler computes; a number that is \<^verbatim>\<open>NaN\<close> or infinite is \<^verbatim>\<open>null\<close> in the JSON
  sent, which is \<open>None\<close> here.
\<close>

record pagination =
  currentPage :: "int option"
  totalPages :: "int option"
  totalItems :: nat

text \<open>
  The JSON a handler sends: a task, the list result, \<^verbatim>\<open>{ error: ... }\<close>,
  \<^verbatim>\<open>{ message: ... }\<close>, or the upload's \<^verbatim>\<open>{ message: ..., task }\<close>.
\<close>

datatype payload =
    TaskJson task
  | TaskListJson "task list" pagination
  | ErrorJson errtext
  | MessageJson string
  | UploadJson string task

record response =
  code :: nat
  payload :: payload

definition respond :: "nat \<Rightarrow> payload \<Rightarrow> response" where
  "respond c p = \<lparr>code = c, payload = p\<rparr>"

section \<open>Schema: casting, setters and validators\<close>

definition is_hex :: "char \<Rightarrow> bool" where
  "is_hex c = (c \<in> set ''0123456789abcdefABCDEF'')"

definition lower_hex :: "char \<Rightarrow> char" where
  "lower_hex c = (if c \<in> set ''ABCDEF'' then char_of (of_char c + (32::nat)) else c)"

text \<open>
  Casting a string to an ObjectId: 24 hexadecimal digits, read case-insensitively.
  Anything else is a cast failure.
\<close>

definition cast_oid :: "string \<Rightarrow> oid option" where
  "cast_oid s = (if length s = 24 \<and> list_all is_hex s then Some (map lower_hex s) else None)"

text \<open>
  The white space of JavaScript (\<^verbatim>\<open>WhiteSpace\<close> and \<^verbatim>\<open>LineTerminator\<close>): the six ASCII
  characters, and in UTF-8 the no-break space U+00A0, the byte order mark U+FEFF,
  U+1680, U+2000 to U+200A, U+2028, U+2029, U+202F, U+205F and U+3000.
\<close>

definition is_space :: "char \<Rightarrow> bool" where
  "is_space c = (c \<in> set [CHR '' '', CHR 0x09, CHR 0x0A, CHR 0x0B, CHR 0x0C, CHR 0x0D])"

definition white_space :: "string list" where
  "white_space =
     [[CHR 0xC2, CHR 0xA0], [CHR 0xEF, CHR 0xBB, CHR 0xBF], [CHR 0xE1, CHR 0x9A, CHR 0x80],
      [CHR 0xE2, CHR 0x80, CHR 0x80], [CHR 0xE2, CHR 0x80, CHR 0x81],
      [CHR 0xE2, CHR 0x80, CHR 0x82], [CHR 0xE2, CHR 0x80, CHR 0x83],
      [CHR 0xE2, CHR 0x80, CHR 0x84], [CHR 0xE2, CHR 0x80, CHR 0x85],
      [CHR 0xE2, CHR 0x80, CHR 0x86], [CHR 0xE2, CHR 0x80, CHR 0x87],
      [CHR 0xE2, CHR 0x80, CHR 0x88], [CHR 0xE2, CHR 0x80, CHR 0x89],
      [CHR 0xE2, CHR 0x80, CHR 0x8A], [CHR 0xE2, CHR 0x80, CHR 0xA8],
      [CHR 0xE2, CHR 0x80, CHR 0xA9], [CHR 0xE2, CHR 0x80, CHR 0xAF],
      [CHR 0xE2, CHR 0x81, CHR 0x9F], [CHR 0xE3, CHR 0x80, CHR 0x80]]"

text \<open>
  Dropping the white space a string starts with: one ASCII character, or the two or
  three bytes of one of the others (\<open>ws\<close> lists them).
\<close>

fun strip_ws :: "string list \<Rightarrow> string \<Rightarrow> string" where
  "strip_ws ws [] = []"
| "strip_ws ws (c # cs) =
     (if is_space c then strip_ws ws cs
      else if c # take 1 cs \<in> set ws then strip_ws ws (drop 1 cs)
      else if c # take 2 cs \<in> set ws then strip_ws ws (drop 2 cs)
      else c # cs)"

definition trim_start :: "string \<Rightarrow> string" where
  "trim_start s = strip_ws white_space s"

text \<open>
  \<^verbatim>\<open>String.prototype.trim\<close>, which is the \<^verbatim>\<open>trim: true\<close> setter of \<^verbatim>\<open>title\<close> and
  \<^verbatim>\<open>description\<close>: the white space at the end is dropped from the reversed string.
\<close>

definition trim :: "string \<Rightarrow> string" where
  "trim s = rev (strip_ws (map rev white_space) (rev (trim_start s)))"

text \<open>The \<^verbatim>\<open>enum\<close> of \<^verbatim>\<open>status\<close>, and its \<^verbatim>\<open>default\<close>.\<close>

definition status_enum :: "string list" where
  "status_enum = [''Pending'', ''In Progress'', ''Completed'']"

definition status_default :: string where
  "status_default = ''Pending''"

text \<open>
  Document validation, run by \<^verbatim>\<open>save\<close>: \<^verbatim>\<open>title\<close> is required (a string of length 0
  does not count), \<^verbatim>\<open>status\<close> is in the enum. The result lists the failing paths.
\<close>

definition doc_errors :: "task \<Rightarrow> string list" where
  "doc_errors t =
     (if title t = [] then [''title''] else []) @
     (if status t \<in> set status_enum then [] else [''status''])"

section \<open>The request validator\<close>

definition dq :: "string \<Rightarrow> string" where
  "dq s = CHR 0x22 # s @ [CHR 0x22]"

text \<open>\<^verbatim>\<open>Joi.string().required().messages({'any.required': 'Title is required'})\<close>\<close>

fun check_title :: "json option \<Rightarrow> string option" where
  "check_title None = Some ''Title is required''"
| "check_title (Some (JStr s)) =
     (if s = [] then Some (dq ''title'' @ '' is not allowed to be empty'') else None)"
| "check_title (Some _) = Some (dq ''title'' @ '' must be a string'')"

text \<open>\<^verbatim>\<open>Joi.string().optional()\<close>\<close>

fun check_description :: "json option \<Rightarrow> string option" where
  "check_description None = None"
| "check_description (Some (JStr s)) =
     (if s = [] then Some (dq ''description'' @ '' is not allowed to be empty'') else None)"
| "check_description (Some _) = Some (dq ''description'' @ '' must be a string'')"

text \<open>\<^verbatim>\<open>Joi.string().valid('Pending', 'In Progress', 'Completed').optional()\<close>\<close>

definition check_status :: "json option \<Rightarrow> string option" where
  "check_status v =
     (case v of
        None \<Rightarrow> None
      | Some x \<Rightarrow>
          if x \<in> set (map JStr status_enum) then None
          else Some (dq ''status'' @ '' must be one of [Pending, In Progress, Completed]''))"

definition schema_keys :: "string list" where
  "schema_keys = [''title'', ''description'', ''status'']"

text \<open>
  \<^verbatim>\<open>schema.validate(req.body)\<close> with Joi's defaults: the value must be an object, the
  keys of the schema are checked in the order they are declared, then a key the schema
  does not know is refused; the first error ends the validation. The result is
  \<^verbatim>\<open>error.details[0].message\<close>, or \<open>None\<close> when there is no error.
\<close>

definition schema_validate :: "json \<Rightarrow> string option" where
  "schema_validate b =
     (case b of
        JObj fs \<Rightarrow>
          (case check_title (map_of fs ''title'') of
             Some e \<Rightarrow> Some e
           | None \<Rightarrow>
          (case check_description (map_of fs ''description'') of
             Some e \<Rightarrow> Some e
           | None \<Rightarrow>
          (case check_status (map_of fs ''status'') of
             Some e \<Rightarrow> Some e
           | None \<Rightarrow>
          (case filter (\<lambda>k. k \<notin> set schema_keys) (map fst fs) of
             [] \<Rightarrow> None
           | k # _ \<Rightarrow> Some (dq k @ '' is not allowed'')))))
      | _ \<Rightarrow> Some (dq ''value'' @ '' must be of type object''))"

text \<open>
  The middleware \<^verbatim>\<open>validateTask\<close>: on an error it answers 400 and the handler is not
  run; otherwise \<^verbatim>\<open>next()\<close> runs the handler.
\<close>

definition validateTask ::
  "json \<Rightarrow> store \<Rightarrow> (store \<times> response) \<Rightarrow> store \<times> response" where
  "validateTask b db next =
     (case schema_validate b of
        Some msg \<Rightarrow> (db, respond 400 (ErrorJson (Text msg)))
      | None \<Rightarrow> next)"

text \<open>
  Destructuring \<^verbatim>\<open>req.body\<close>: a property that is a string, or \<open>None\<close> for
  \<^verbatim>\<open>undefined\<close>. After \<^verbatim>\<open>validateTask\<close> the three properties read are strings or
  absent.
\<close>

definition body_field :: "json \<Rightarrow> string \<Rightarrow> string option" where
  "body_field b k =
     (case b of
        JObj fs \<Rightarrow> (case map_of fs k of Some (JStr s) \<Rightarrow> Some s | _ \<Rightarrow> None)
      | _ \<Rightarrow> None)"

section \<open>Collection operations\<close>

definition findById :: "store \<Rightarrow> oid \<Rightarrow> task option" where
  "findById db i = find (\<lambda>t. task_id t = i) db"

text \<open>Replace, or delete, the first document with the given \<^verbatim>\<open>_id\<close>.\<close>

fun replace_doc :: "oid \<Rightarrow> task \<Rightarrow> store \<Rightarrow> store" where
  "replace_doc i t' [] = []"
| "replace_doc i t' (t # ts) = (if task_id t = i then t' # ts else t # replace_doc i t' ts)"

fun delete_doc :: "oid \<Rightarrow> store \<Rightarrow> store" where
  "delete_doc i [] = []"
| "delete_doc i (t # ts) = (if task_id t = i then ts else t # delete_doc i ts)"

section \<open>POST /api/tasks\<close>

text \<open>
  \<^verbatim>\<open>new Task({ title, description, user: req.user.userId })\<close> followed by \<^verbatim>\<open>save()\<close>.
  Only \<^verbatim>\<open>title\<close> and \<^verbatim>\<open>description\<close> are read from the body; \<^verbatim>\<open>status\<close> takes the
  schema's default. \<open>now\<close> is the clock and \<open>fresh\<close> the ObjectId generated for the
  document. Validation fails on a title that is missing or empty after trimming and on
  a user that does not cast; an \<^verbatim>\<open>_id\<close> already in the collection is a duplicate key.
\<close>

definition post_handler :: "nat \<Rightarrow> oid \<Rightarrow> store \<Rightarrow> request \<Rightarrow> store \<times> response" where
  "post_handler now fresh db req =
     (let t = body_field (body req) ''title'';
          d = body_field (body req) ''description'';
          errs = (case t of None \<Rightarrow> [''title'']
                   | Some s \<Rightarrow> if trim s = [] then [''title''] else []) @
                 (case cast_oid (user_id req) of None \<Rightarrow> [''user''] | Some _ \<Rightarrow> [])
      in if errs \<noteq> [] then
           (db, respond 500 (ErrorJson (MessageOf (ValidationError errs))))
         else if fresh \<in> set (map task_id db) then
           (db, respond 500 (ErrorJson (MessageOf (DuplicateKey fresh))))
         else
           (let savedTask =
                  \<lparr>task_id = fresh, title = trim (the t), description = map_option trim d,
                   status = status_default, user = the (cast_oid (user_id req)),
                   image_path = None, createdAt = now, updatedAt = now\<rparr>
            in (db @ [savedTask], respond 201 (TaskJson savedTask))))"

definition post_api_tasks :: "nat \<Rightarrow> oid \<Rightarrow> store \<Rightarrow> request \<Rightarrow> store \<times> response" where
  "post_api_tasks now fresh db req =
     validateTask (body req) db (post_handler now fresh db req)"

section \<open>GET /api/tasks\<close>

text \<open>A query parameter is truthy when it is present and not the empty string.\<close>

definition truthy :: "string option \<Rightarrow> bool" where
  "truthy v = (case v of None \<Rightarrow> False | Some s \<Rightarrow> s \<noteq> [])"

definition is_digit :: "char \<Rightarrow> bool" where
  "is_digit c = (c \<in> set ''0123456789'')"

definition digits_val :: "string \<Rightarrow> nat" where
  "digits_val s = foldl (\<lambda>n c. 10 * n + (of_char c - 48)) 0 s"


subsection \<open>The numbers of JavaScript\<close>

text \<open>
  The handler computes with the query strings: \<^verbatim>\<open>page - 1\<close>, \<^verbatim>\<open>... * limit\<close> and
  \<^verbatim>\<open>total / limit\<close> coerce them with \<^verbatim>\<open>Number\<close>, \<^verbatim>\<open>parseInt\<close> reads the integer a string
  starts with. \<open>Fin m k\<close> is the number \<open>m / 2 ^ k\<close>; the sign of a zero and of an
  infinity is not kept, nothing below depends on it. Every operation returns its result
  when that is the exact one, a double with a mantissa below \<open>2 ^ 53\<close> (the mantissa as
  written, so the check errs on the side of \<open>None\<close>); where JavaScript would round,
  the operation returns \<open>None\<close> and the request is outside the model.
\<close>

datatype jsnum = Fin int nat | NaN | Infinite

definition exact :: "int \<Rightarrow> nat \<Rightarrow> jsnum option" where
  "exact m k = (if \<bar>m\<bar> < 2 ^ 53 \<and> k \<le> 1022 then Some (Fin m k) else None)"

text \<open>
  The double a decimal literal \<open>m * 10 ^ e\<close> is read as: the number itself when it is a
  double, an infinity from \<open>2 ^ 1024\<close> on, zero below \<open>2 ^ - 1075\<close>; in between
  the literal is rounded.
\<close>

definition double_of :: "nat \<Rightarrow> int \<Rightarrow> jsnum option" where
  "double_of m e =
     (if m = 0 then Some (Fin 0 0)
      else if 0 \<le> e then
        (if e < 16 \<and> m * 10 ^ nat e < 2 ^ 53 then Some (Fin (int (m * 10 ^ nat e)) 0)
         else if 2 ^ 1024 \<le> m * 10 ^ nat e then Some Infinite
         else None)
      else if m mod 5 ^ nat (- e) = 0 then exact (int (m div 5 ^ nat (- e))) (nat (- e))
      else if m * 2 ^ 1075 < 10 ^ nat (- e) then Some (Fin 0 0)
      else None)"

definition hex_val :: "char \<Rightarrow> nat" where
  "hex_val c =
     (if is_digit c then of_char c - 48
      else if c \<in> set ''abcdef'' then of_char c - 87
      else if c \<in> set ''ABCDEF'' then of_char c - 55
      else 0)"

definition radix_digit :: "nat \<Rightarrow> char \<Rightarrow> bool" where
  "radix_digit r c = (is_hex c \<and> hex_val c < r)"

definition radix_val :: "nat \<Rightarrow> string \<Rightarrow> nat" where
  "radix_val r s = foldl (\<lambda>n c. r * n + hex_val c) 0 s"

text \<open>The digits after \<^verbatim>\<open>0x\<close>, \<^verbatim>\<open>0o\<close> or \<^verbatim>\<open>0b\<close>.\<close>

definition radix_literal :: "nat \<Rightarrow> string \<Rightarrow> jsnum option" where
  "radix_literal r ds =
     (if ds \<noteq> [] \<and> list_all (radix_digit r) ds then exact (int (radix_val r ds)) 0
      else Some NaN)"

text \<open>The exponent part of a decimal literal: empty, or \<^verbatim>\<open>e\<close>, a sign, digits.\<close>

definition exponent_part :: "string \<Rightarrow> int option" where
  "exponent_part r =
     (if r = [] then Some 0
      else if take 1 r \<in> set [''e'', ''E''] then
        (let r' = drop 1 r;
             ds = (if take 1 r' \<in> set [''+'', ''-''] then drop 1 r' else r')
         in if ds \<noteq> [] \<and> list_all is_digit ds
            then Some (if take 1 r' = ''-'' then - int (digits_val ds) else int (digits_val ds))
            else None)
      else None)"

text \<open>
  An unsigned decimal literal: digits, a point, digits, an exponent part; the digits
  before the point or those after it may be missing, not both.
\<close>

definition str_decimal :: "string \<Rightarrow> jsnum option" where
  "str_decimal r =
     (let ip = takeWhile is_digit r;
          r1 = dropWhile is_digit r;
          dot = (take 1 r1 = ''.'');
          fp = (if dot then takeWhile is_digit (drop 1 r1) else []);
          r2 = (if dot then dropWhile is_digit (drop 1 r1) else r1)
      in if ip = [] \<and> fp = [] then Some NaN
         else
           (case exponent_part r2 of
              None \<Rightarrow> Some NaN
            | Some ex \<Rightarrow> double_of (digits_val (ip @ fp)) (ex - int (length fp))))"

fun js_negate :: "jsnum \<Rightarrow> jsnum" where
  "js_negate (Fin m k) = Fin (- m) k"
| "js_negate x = x"

text \<open>
  \<^verbatim>\<open>Number(s)\<close>: the white space around the literal is dropped; the empty string is 0; a
  literal with a radix prefix has no sign; anything that is no literal is \<^verbatim>\<open>NaN\<close>.
\<close>

definition to_number :: "string \<Rightarrow> jsnum option" where
  "to_number s =
     (let t = trim s
      in if t = [] then Some (Fin 0 0)
         else if take 2 t \<in> set [''0x'', ''0X''] then radix_literal 16 (drop 2 t)
         else if take 2 t \<in> set [''0o'', ''0O''] then radix_literal 8 (drop 2 t)
         else if take 2 t \<in> set [''0b'', ''0B''] then radix_literal 2 (drop 2 t)
         else
           (let u = (if take 1 t \<in> set [''+'', ''-''] then drop 1 t else t)
            in if u = ''Infinity'' then Some Infinite
               else map_option (if take 1 t = ''-'' then js_negate else id) (str_decimal u)))"

text \<open>
  \<^verbatim>\<open>parseInt(s)\<close> without a radix: white space, a sign, then hexadecimal digits after
  \<^verbatim>\<open>0x\<close> or else decimal digits, as many as there are; \<^verbatim>\<open>NaN\<close> when there are none.
\<close>

definition parse_int :: "string \<Rightarrow> jsnum option" where
  "parse_int s =
     (let t = trim_start s;
          u = (if take 1 t \<in> set [''+'', ''-''] then drop 1 t else t);
          hex = (take 2 u \<in> set [''0x'', ''0X'']);
          ds = (if hex then takeWhile (radix_digit 16) (drop 2 u) else takeWhile is_digit u);
          n = (if hex then radix_val 16 ds else digits_val ds)
      in if ds = [] then Some NaN
         else exact (if take 1 t = ''-'' then - int n else int n) 0)"

text \<open>\<^verbatim>\<open>x - 1\<close> and \<^verbatim>\<open>x * y\<close>.\<close>

fun js_minus_one :: "jsnum \<Rightarrow> jsnum option" where
  "js_minus_one (Fin m k) = exact (m - 2 ^ k) k"
| "js_minus_one x = Some x"

fun js_times :: "jsnum \<Rightarrow> jsnum \<Rightarrow> jsnum option" where
  "js_times (Fin a j) (Fin b k) = exact (a * b) (j + k)"
| "js_times NaN y = Some NaN"
| "js_times x NaN = Some NaN"
| "js_times Infinite (Fin b k) = Some (if b = 0 then NaN else Infinite)"
| "js_times (Fin a j) Infinite = Some (if a = 0 then NaN else Infinite)"
| "js_times Infinite Infinite = Some Infinite"

text \<open>The whole number a number is, if it is one; the natural number, if it is one.\<close>

fun whole :: "jsnum \<Rightarrow> int option" where
  "whole (Fin m k) = (if m mod 2 ^ k = 0 then Some (m div 2 ^ k) else None)"
| "whole x = None"

definition as_nat :: "jsnum \<Rightarrow> nat option" where
  "as_nat x = (case whole x of None \<Rightarrow> None | Some i \<Rightarrow> if 0 \<le> i then Some (nat i) else None)"


text \<open>
  \<^verbatim>\<open>Math.ceil(total / limit)\<close> as the JSON response shows it: a division by zero gives
  \<^verbatim>\<open>Infinity\<close> or \<^verbatim>\<open>NaN\<close>, which \<^verbatim>\<open>JSON.stringify\<close> writes as \<^verbatim>\<open>null\<close>, and so does a
  \<^verbatim>\<open>limit\<close> that is \<^verbatim>\<open>NaN\<close>; a division by an infinity gives 0. The quotient of the
  doubles has the ceiling of the exact quotient when \<open>exact_quotient\<close> holds.
\<close>

fun ceil_div :: "nat \<Rightarrow> jsnum \<Rightarrow> int option" where
  "ceil_div n (Fin m k) =
     (if m = 0 then None else Some \<lceil>(of_nat n * 2 ^ k :: rat) / of_int m\<rceil>)"
| "ceil_div n NaN = None"
| "ceil_div n Infinite = Some 0"

fun exact_quotient :: "nat \<Rightarrow> jsnum \<Rightarrow> bool" where
  "exact_quotient n (Fin m k) = (m = 0 \<or> int n * 2 ^ k < 2 ^ 53)"
| "exact_quotient n x = True"

text \<open>
  The value of a numeric query parameter under \<^verbatim>\<open>Number\<close> and under \<^verbatim>\<open>parseInt\<close>; an
  absent parameter has the number of the destructuring default.
\<close>

definition query_number :: "string option \<Rightarrow> nat \<Rightarrow> jsnum option" where
  "query_number v dflt = (case v of None \<Rightarrow> Some (Fin (int dflt) 0) | Some s \<Rightarrow> to_number s)"

definition query_int :: "string option \<Rightarrow> nat \<Rightarrow> jsnum option" where
  "query_int v dflt = (case v of None \<Rightarrow> Some (Fin (int dflt) 0) | Some s \<Rightarrow> parse_int s)"

text \<open>The argument of \<^verbatim>\<open>skip\<close>: \<^verbatim>\<open>(page - 1) * limit\<close>.\<close>

definition skip_arg :: "jsnum \<Rightarrow> jsnum \<Rightarrow> jsnum option" where
  "skip_arg page limit =
     (case js_minus_one page of None \<Rightarrow> None | Some d \<Rightarrow> js_times d limit)"

subsection \<open>Sorting\<close>

text \<open>
  \<^verbatim>\<open>.sort(sort)\<close> with a string: the string is split at every space; each piece names
  a path, with a leading \<^verbatim>\<open>-\<close> for descending order. An empty name throws, the three
  names of \<open>special_properties\<close> are skipped, and a path named twice keeps its place and
  takes the later direction.
\<close>

fun split_on :: "char \<Rightarrow> string \<Rightarrow> string \<Rightarrow> string list" where
  "split_on d cur [] = [rev cur]"
| "split_on d cur (c # cs) =
     (if c = d then rev cur # split_on d [] cs else split_on d (c # cur) cs)"

definition special_properties :: "string list" where
  "special_properties = [''__proto__'', ''constructor'', ''prototype'']"

definition set_sort :: "string \<Rightarrow> bool \<Rightarrow> (string \<times> bool) list \<Rightarrow> (string \<times> bool) list" where
  "set_sort f asc acc =
     (if f \<in> set (map fst acc) then map (\<lambda>(g, a). if g = f then (g, asc) else (g, a)) acc
      else acc @ [(f, asc)])"

fun sort_props :: "string list \<Rightarrow> (string \<times> bool) list \<Rightarrow> exn + (string \<times> bool) list" where
  "sort_props [] acc = Inr acc"
| "sort_props (p # ps) acc =
     (let asc = (take 1 p \<noteq> ''-''); f = (if asc then p else drop 1 p)
      in if f = [] then Inl (Error (''Invalid field '' @ dq [] @ '' passed to sort()''))
         else if f \<in> set special_properties then sort_props ps acc
         else sort_props ps (set_sort f asc acc))"

definition sort_spec :: "string \<Rightarrow> exn + (string \<times> bool) list" where
  "sort_spec s = sort_props (split_on CHR '' '' [] s) []"

text \<open>
  A path the database sorts by as it stands: its parts between the dots are not empty
  and do not start with \<^verbatim>\<open>$\<close>. A sort by another path is outside the model.
\<close>

definition plain_path :: "string \<Rightarrow> bool" where
  "plain_path f = list_all (\<lambda>c. c \<noteq> [] \<and> take 1 c \<noteq> ''$'') (split_on CHR ''.'' [] f)"

text \<open>
  Values are compared as the database orders them: a missing value first, strings by
  their bytes. A path no task has is missing in every task.
\<close>

datatype bson = BNull | BStr string | BOid oid | BDate nat

fun str_le :: "string \<Rightarrow> string \<Rightarrow> bool" where
  "str_le [] ys = True"
| "str_le (x # xs) [] = False"
| "str_le (x # xs) (y # ys) =
     ((of_char x :: nat) < of_char y \<or> (x = y \<and> str_le xs ys))"

fun bson_rank :: "bson \<Rightarrow> nat" where
  "bson_rank BNull = 0"
| "bson_rank (BStr _) = 1"
| "bson_rank (BOid _) = 2"
| "bson_rank (BDate _) = 3"

fun bson_le :: "bson \<Rightarrow> bson \<Rightarrow> bool" where
  "bson_le (BStr a) (BStr b) = str_le a b"
| "bson_le (BOid a) (BOid b) = str_le a b"
| "bson_le (BDate a) (BDate b) = (a \<le> b)"
| "bson_le x y = (bson_rank x \<le> bson_rank y)"

definition opt_str :: "string option \<Rightarrow> bson" where
  "opt_str v = (case v of None \<Rightarrow> BNull | Some s \<Rightarrow> BStr s)"

definition field_value :: "string \<Rightarrow> task \<Rightarrow> bson" where
  "field_value f t =
     (if f = ''_id'' then BOid (task_id t)
      else if f = ''title'' then BStr (title t)
      else if f = ''description'' then opt_str (description t)
      else if f = ''status'' then BStr (status t)
      else if f = ''user'' then BOid (user t)
      else if f = ''image'' then opt_str (image_path t)
      else if f = ''createdAt'' then BDate (createdAt t)
      else if f = ''updatedAt'' then BDate (updatedAt t)
      else BNull)"

fun task_le :: "(string \<times> bool) list \<Rightarrow> task \<Rightarrow> task \<Rightarrow> bool" where
  "task_le [] a b = True"
| "task_le ((f, asc) # ks) a b =
     (let x = field_value f a; y = field_value f b
      in if x = y then task_le ks a b else if asc then bson_le x y else bson_le y x)"

fun insert_by :: "('a \<Rightarrow> 'a \<Rightarrow> bool) \<Rightarrow> 'a \<Rightarrow> 'a list \<Rightarrow> 'a list" where
  "insert_by le x [] = [x]"
| "insert_by le x (y # ys) = (if le x y then x # y # ys else y # insert_by le x ys)"

definition sort_tasks :: "(string \<times> bool) list \<Rightarrow> task list \<Rightarrow> task list" where
  "sort_tasks spec ts = foldr (insert_by (task_le spec)) ts []"

subsection \<open>The handler\<close>

text \<open>
  With a truthy \<^verbatim>\<open>search\<close> the handler assigns to \<^verbatim>\<open>filter.$or\<close> above the
  \<^verbatim>\<open>const filter\<close> declaration: the access throws a \<^verbatim>\<open>ReferenceError\<close>, which the
  \<^verbatim>\<open>catch\<close> answers with 500. Otherwise the filter is the caller's \<^verbatim>\<open>user\<close> and, when
  \<^verbatim>\<open>status\<close> is truthy, that status. \<^verbatim>\<open>sort\<close> may throw when the query is built; the
  cast of the filter fails when it is run. The tasks are those after the first
  \<^verbatim>\<open>(page - 1) * limit\<close>, at most \<^verbatim>\<open>parseInt(limit)\<close> of them, \<^verbatim>\<open>limit(0)\<close> being no
  limit. The database is given a \<^verbatim>\<open>skip\<close> and a \<^verbatim>\<open>limit\<close> that are natural numbers
  and paths it sorts by as they stand; what it does with other arguments (negative,
  fractional, \<^verbatim>\<open>NaN\<close>) is not in this repository, and such a request is outside the
  model (\<open>None\<close>), as is one whose numbers JavaScript would round.
\<close>

definition get_api_tasks :: "store \<Rightarrow> request \<Rightarrow> response option" where
  "get_api_tasks db req =
     (let q = map_of (query req);
          search = q ''search''; sort = q ''sort''; status_q = q ''status''
      in if truthy search then
           Some (respond 500 (ErrorJson (MessageOf (ReferenceError
             (''Cannot access '' @ [CHR 0x27] @ ''filter'' @ [CHR 0x27] @
              '' before initialization'')))))
         else
           (case sort_spec (case sort of None \<Rightarrow> ''createdAt'' | Some s \<Rightarrow> s) of
              Inl e \<Rightarrow> Some (respond 500 (ErrorJson (MessageOf e)))
            | Inr spec \<Rightarrow>
           (case cast_oid (user_id req) of
              None \<Rightarrow>
                Some (respond 500 (ErrorJson (MessageOf (CastError (user_id req) ''user''))))
            | Some uid \<Rightarrow>
           (case (query_number (q ''page'') 1, query_number (q ''limit'') 10,
                  query_int (q ''page'') 1, query_int (q ''limit'') 10) of
              (Some page, Some limit, Some page_int, Some limit_int) \<Rightarrow>
                (case (skip_arg page limit, as_nat limit_int) of
                   (Some skip, Some per_page) \<Rightarrow>
                     (case as_nat skip of
                        None \<Rightarrow> None
                      | Some sk \<Rightarrow>
                          (let matching =
                                 filter (\<lambda>t. user t = uid \<and>
                                           (if truthy status_q then status t = the status_q
                                            else True)) db;
                               ordered = sort_tasks spec matching;
                               skipped = drop sk ordered;
                               tasks = (if per_page = 0 then skipped else take per_page skipped);
                               total = length matching
                           in if list_all plain_path (map fst spec) \<and>
                                 exact_quotient total limit
                              then Some (respond 200 (TaskListJson tasks
                                     \<lparr>currentPage = whole page_int,
                                      totalPages = ceil_div total limit,
                                      totalItems = total\<rparr>))
                              else None))
                 | _ \<Rightarrow> None)
            | _ \<Rightarrow> None))))"

section \<open>GET /api/tasks/:id\<close>

text \<open>
  The handler calls \<^verbatim>\<open>mongoose.Types.ObjectId.isValid(id)\<close>. Its first argument is what
  the name \<^verbatim>\<open>mongoose\<close> is bound to in the module: the validity test, or \<open>None\<close> when
  the name is not bound, in which case evaluating it throws a \<^verbatim>\<open>ReferenceError\<close>
  inside the \<^verbatim>\<open>try\<close>.
\<close>

definition get_handler :: "(string \<Rightarrow> bool) option \<Rightarrow> store \<Rightarrow> request \<Rightarrow> store \<times> response" where
  "get_handler mongoose db req =
     (case mongoose of
        None \<Rightarrow>
          (db, respond 500 (ErrorJson (MessageOf (ReferenceError ''mongoose is not defined''))))
      | Some isValid \<Rightarrow>
          if \<not> isValid (param_id req) then
            (db, respond 400 (ErrorJson (Text ''Invalid task ID format'')))
          else
            (case cast_oid (param_id req) of
               None \<Rightarrow>
                 (db, respond 500 (ErrorJson (MessageOf (CastError (param_id req) ''_id''))))
             | Some i \<Rightarrow>
                 (case findById db i of
                    None \<Rightarrow> (db, respond 404 (MessageJson ''Task not found''))
                  | Some t \<Rightarrow> (db, respond 200 (TaskJson t)))))"

text \<open>
  \<^verbatim>\<open>taskRoutes.js\<close> requires \<^verbatim>\<open>express\<close>, \<^verbatim>\<open>../models/task\<close> and the three middlewares;
  it has no binding for \<^verbatim>\<open>mongoose\<close>, and Node has no global of that name.
\<close>

definition taskRoutes_mongoose :: "(string \<Rightarrow> bool) option" where
  "taskRoutes_mongoose = None"

definition get_api_tasks_id :: "store \<Rightarrow> request \<Rightarrow> store \<times> response" where
  "get_api_tasks_id db req = get_handler taskRoutes_mongoose db req"

section \<open>PUT /api/tasks/:id\<close>

text \<open>
  \<^verbatim>\<open>findByIdAndUpdate(id, { title, description, status }, { new: true, runValidators:
  true })\<close>: the id is cast, a property that is \<^verbatim>\<open>undefined\<close> is left out of the
  update, the setters trim, the update validators check \<^verbatim>\<open>title\<close> and \<^verbatim>\<open>status\<close>, and
  \<^verbatim>\<open>updatedAt\<close> is set.
\<close>

definition put_handler :: "nat \<Rightarrow> store \<Rightarrow> request \<Rightarrow> store \<times> response" where
  "put_handler now db req =
     (let t = body_field (body req) ''title'';
          d = body_field (body req) ''description'';
          s = body_field (body req) ''status''
      in case cast_oid (param_id req) of
           None \<Rightarrow>
             (db, respond 500 (ErrorJson (MessageOf (CastError (param_id req) ''_id''))))
         | Some i \<Rightarrow>
             (let errs =
                    (case t of None \<Rightarrow> []
                      | Some x \<Rightarrow> if trim x = [] then [''title''] else []) @
                    (case s of None \<Rightarrow> []
                      | Some x \<Rightarrow> if x \<in> set status_enum then [] else [''status''])
              in if errs \<noteq> [] then
                   (db, respond 500 (ErrorJson (MessageOf (ValidationError errs))))
                 else
                   (case findById db i of
                      None \<Rightarrow> (db, respond 404 (MessageJson ''Task not found''))
                    | Some old \<Rightarrow>
                        (let updatedTask =
                               old\<lparr>title := (case t of None \<Rightarrow> title old | Some x \<Rightarrow> trim x),
                                   description :=
                                     (case d of None \<Rightarrow> description old
                                      | Some x \<Rightarrow> Some (trim x)),
                                   status := (case s of None \<Rightarrow> status old | Some x \<Rightarrow> x),
                                   updatedAt := now\<rparr>
                         in (replace_doc i updatedTask db,
                             respond 200 (TaskJson updatedTask))))))"

definition put_api_tasks_id :: "nat \<Rightarrow> store \<Rightarrow> request \<Rightarrow> store \<times> response" where
  "put_api_tasks_id now db req = validateTask (body req) db (put_handler now db req)"

section \<open>DELETE /api/tasks/:id\<close>

definition delete_api_tasks_id :: "store \<Rightarrow> request \<Rightarrow> store \<times> response" where
  "delete_api_tasks_id db req =
     (case cast_oid (param_id req) of
        None \<Rightarrow>
          (db, respond 500 (ErrorJson (MessageOf (CastError (param_id req) ''_id''))))
      | Some i \<Rightarrow>
          (case findById db i of
             None \<Rightarrow> (db, respond 404 (MessageJson ''Task not found''))
           | Some deletedTask \<Rightarrow>
               (delete_doc i db, respond 200 (MessageJson ''Task deleted successfully''))))"

section \<open>POST /api/tasks/:id/upload\<close>

text \<open>
  The upload middleware has run: \<open>req_file\<close> is the stored file's name, if a file came
  with the request. \<^verbatim>\<open>task.save()\<close> validates the document and, when the image path
  changed, writes it together with \<^verbatim>\<open>updatedAt\<close>.
\<close>

definition post_api_tasks_id_upload :: "nat \<Rightarrow> store \<Rightarrow> request \<Rightarrow> store \<times> response" where
  "post_api_tasks_id_upload now db req =
     (case req_file req of
        None \<Rightarrow> (db, respond 400 (ErrorJson (Text ''No file uploaded'')))
      | Some filename \<Rightarrow>
          (case cast_oid (param_id req) of
             None \<Rightarrow>
               (db, respond 500 (ErrorJson (MessageOf (CastError (param_id req) ''_id''))))
           | Some i \<Rightarrow>
               (case findById db i of
                  None \<Rightarrow> (db, respond 404 (ErrorJson (Text ''Task not found'')))
                | Some found \<Rightarrow>
                    (let path = ''/uploads/'' @ filename;
                         task = found\<lparr>image_path := Some path\<rparr>
                     in if doc_errors task \<noteq> [] then
                          (db, respond 500
                                 (ErrorJson (MessageOf (ValidationError (doc_errors task)))))
                        else if image_path found = Some path then
                          (db, respond 200 (UploadJson ''Image uploaded successfully'' task))
                        else
                          (let saved = task\<lparr>updatedAt := now\<rparr>
                           in (replace_doc i saved db,
                               respond 200
                                 (UploadJson ''Image uploaded successfully'' saved)))))))"

section \<open>Reading responses and collections\<close>

text \<open>The tasks a response carries in its \<^verbatim>\<open>tasks\<close> array.\<close>

definition tasks_of :: "response \<Rightarrow> task list" where
  "tasks_of r = (case payload r of TaskListJson ts _ \<Rightarrow> ts | _ \<Rightarrow> [])"

text \<open>A stored document satisfies its schema, and so does every document of a collection.\<close>

definition valid_doc :: "task \<Rightarrow> bool" where
  "valid_doc t = (doc_errors t = [])"

definition valid_store :: "store \<Rightarrow> bool" where
  "valid_store db = list_all valid_doc db"

text \<open>Everything of a document but its image path and its update time.\<close>

definition frame :: "task \<Rightarrow> oid \<times> string \<times> string option \<times> string \<times> oid \<times> nat" where
  "frame t = (task_id t, title t, description t, status t, user t, createdAt t)"

text \<open>Whether a body is an object, and whether it has a property of a given name.\<close>

definition is_object :: "json \<Rightarrow> bool" where
  "is_object b = (case b of JObj _ \<Rightarrow> True | _ \<Rightarrow> False)"

definition has_field :: "json \<Rightarrow> string \<Rightarrow> bool" where
  "has_field b k = (case b of JObj fs \<Rightarrow> k \<in> set (map fst fs) | _ \<Rightarrow> False)"

text \<open>The error message of a response, when it carries one as a text.\<close>

definition error_text :: "response \<Rightarrow> string option" where
  "error_text r = (case payload r of ErrorJson (Text m) \<Rightarrow> Some m | _ \<Rightarrow> None)"

text \<open>Whether a string has another as a part.\<close>

fun contains :: "string \<Rightarrow> string \<Rightarrow> bool" where
  "contains [] n = (n = [])"
| "contains (c # cs) n = (take (length n) (c # cs) = n \<or> contains cs n)"



section \<open>A collection and requests to run the handlers on\<close>

definition alice :: string where
  "alice = ''aaaaaaaaaaaaaaaaaaaaaaaa''"

definition bob :: string where
  "bob = ''bbbbbbbbbbbbbbbbbbbbbbbb''"

definition id1 :: oid where
  "id1 = ''000000000000000000000001''"

definition id2 :: oid where
  "id2 = ''000000000000000000000002''"

definition id3 :: oid where
  "id3 = ''000000000000000000000003''"

definition task1 :: task where
  "task1 = \<lparr>task_id = id1, title = ''Write report'', description = None,
            status = ''Pending'', user = alice, image_path = None,
            createdAt = 1, updatedAt = 1\<rparr>"

definition task2 :: task where
  "task2 = \<lparr>task_id = id2, title = ''Buy milk'', description = Some ''two litres'',
            status = ''Completed'', user = bob, image_path = None,
            createdAt = 2, updatedAt = 2\<rparr>"


definition db2 :: store where
  "db2 = [task1, task2]"


text \<open>A request of \<open>who\<close> with the path parameter \<open>i\<close>, an empty body, no query, no file.\<close>

definition request_of :: "string \<Rightarrow> string \<Rightarrow> request" where
  "request_of who i =
     \<lparr>user_id = who, param_id = i, body = JObj [], query = [], req_file = None\<rparr>"

section \<open>Facts about the collection operations\<close>

lemma set_insert_by: "set (insert_by le x xs) = insert x (set xs)"
  by (induction xs) auto

lemma set_sort_tasks: "set (sort_tasks s ts) = set ts"
  unfolding sort_tasks_def by (induction ts) (simp_all add: set_insert_by)

lemma length_insert_by: "length (insert_by le x xs) = Suc (length xs)"
  by (induction xs) auto

lemma length_sort_tasks: "length (sort_tasks s ts) = length ts"
  unfolding sort_tasks_def by (induction ts) (simp_all add: length_insert_by)

lemma findById_SomeD: "findById db i = Some t \<Longrightarrow> t \<in> set db \<and> task_id t = i"
  unfolding findById_def by (induction db) (auto split: if_splits)

lemma findById_replace:
  "findById db i = Some t \<Longrightarrow> task_id t' = i \<Longrightarrow>
   findById (replace_doc i t' db) i = Some t'"
  unfolding findById_def by (induction db) (auto split: if_splits)

lemma map_frame_replace:
  "findById db i = Some t \<Longrightarrow> frame t' = frame t \<Longrightarrow>
   map frame (replace_doc i t' db) = map frame db"
  unfolding findById_def by (induction db) (auto split: if_splits)

lemma valid_store_replace:
  "valid_store db \<Longrightarrow> valid_doc t' \<Longrightarrow> valid_store (replace_doc i t' db)"
  unfolding valid_store_def by (induction db) auto

lemma valid_store_delete: "valid_store db \<Longrightarrow> valid_store (delete_doc i db)"
  unfolding valid_store_def by (induction db) auto

lemma valid_store_findById:
  "valid_store db \<Longrightarrow> findById db i = Some t \<Longrightarrow> valid_doc t"
  using findById_SomeD [of db i t] by (auto simp: valid_store_def list_all_iff)

section \<open>Facts about the numbers\<close>



text \<open>The same number in integer arithmetic, which is how concrete pages are computed.\<close>

lemma ceil_div_int:
  "ceil_div n (Fin m k) = (if m = 0 then None else Some (- (- (int n * 2 ^ k) div m)))"
proof -
  have "\<lceil>(of_int (int n * 2 ^ k) :: rat) / of_int m\<rceil> = - (- (int n * 2 ^ k) div m)"
    by (rule ceiling_divide_eq_div)
  then show ?thesis
    by simp
qed







section \<open>Facts about the example collection\<close>

lemma cast_alice: "cast_oid alice = Some alice"
  by (simp add: cast_oid_def alice_def is_hex_def lower_hex_def)

lemma cast_bob: "cast_oid bob = Some bob"
  by (simp add: cast_oid_def bob_def is_hex_def lower_hex_def)

lemma cast_id1: "cast_oid id1 = Some id1"
  by (simp add: cast_oid_def id1_def is_hex_def lower_hex_def)

lemma cast_id3: "cast_oid id3 = Some id3"
  by (simp add: cast_oid_def id3_def is_hex_def lower_hex_def)

lemma alice_neq_bob: "alice \<noteq> bob" "bob \<noteq> alice"
  by (simp_all add: alice_def bob_def)

lemma ids_neq:
  "id1 \<noteq> id2" "id2 \<noteq> id1" "id3 \<noteq> id1" "id3 \<noteq> id2" "id1 \<noteq> id3" "id2 \<noteq> id3"
  by (simp_all add: id1_def id2_def id3_def)

lemma findById_db2: "findById db2 id1 = Some task1" "findById db2 id3 = None"
  by (simp_all add: findById_def db2_def task1_def task2_def ids_neq)

lemma trim_examples:
  "trim ''Write report'' = ''Write report''" "trim ''Call home'' = ''Call home''"
  by (simp_all add: trim_def trim_start_def white_space_def is_space_def)

lemma sort_spec_createdAt: "sort_spec ''createdAt'' = Inr [(''createdAt'', True)]"
  by (simp add: sort_spec_def special_properties_def set_sort_def)

lemma plain_path_createdAt: "plain_path ''createdAt''"
  by (simp add: plain_path_def)

lemma numbers_of_examples:
  "to_number ''0'' = Some (Fin 0 0)" "parse_int ''0'' = Some (Fin 0 0)"
  "to_number ''1'' = Some (Fin 1 0)" "parse_int ''1'' = Some (Fin 1 0)"
  "to_number ''2'' = Some (Fin 2 0)" "parse_int ''2'' = Some (Fin 2 0)"
  "to_number ''1e1'' = Some (Fin 10 0)" "parse_int ''1e1'' = Some (Fin 1 0)"
  by (simp_all add: to_number_def parse_int_def trim_def trim_start_def white_space_def
      is_space_def str_decimal_def exponent_part_def double_of_def exact_def is_digit_def
      digits_val_def Let_def)

lemmas list_defs =
  get_api_tasks_def request_of_def truthy_def query_number_def query_int_def skip_arg_def
  exact_def as_nat_def Let_def sort_spec_createdAt plain_path_createdAt numbers_of_examples
  sort_tasks_def field_value_def ceil_div_int

lemma valid_store_db2: "valid_store db2"
  by (simp add: valid_store_def valid_doc_def doc_errors_def status_enum_def db2_def
      task1_def task2_def)

section \<open>C1: the list shows the caller's tasks only\<close>

text \<open>
  C1. Whatever \<^verbatim>\<open>GET /api/tasks\<close> returns in its \<^verbatim>\<open>tasks\<close> array is a stored task whose
  \<^verbatim>\<open>user\<close> is the caller's identity (the ObjectId that \<^verbatim>\<open>req.user.userId\<close> casts to).
  So a task owned by one user is in no other user's list.
\<close>

theorem list_returns_only_callers_tasks:
  assumes "get_api_tasks db req = Some r" and "t \<in> set (tasks_of r)"
  shows "t \<in> set db \<and> cast_oid (user_id req) = Some (user t)"
  using assms
  by (auto simp: get_api_tasks_def Let_def tasks_of_def respond_def set_sort_tasks
      split: if_splits option.splits prod.splits sum.splits
      dest!: in_set_dropD in_set_takeD)

lemma list_alice:
  "get_api_tasks db2 (request_of alice []) =
     Some (respond 200 (TaskListJson [task1]
       \<lparr>currentPage = Some 1, totalPages = Some 1, totalItems = 1\<rparr>))"
  by (simp add: list_defs cast_alice db2_def task1_def task2_def alice_neq_bob
      del: ceil_div.simps)

theorem list_returns_only_callers_tasks_witness:
  "get_api_tasks db2 (request_of alice []) =
     Some (respond 200 (TaskListJson [task1]
       \<lparr>currentPage = Some 1, totalPages = Some 1, totalItems = 1\<rparr>)) \<and>
   task1 \<in> set (tasks_of (respond 200 (TaskListJson [task1]
       \<lparr>currentPage = Some 1, totalPages = Some 1, totalItems = 1\<rparr>))) \<and>
   task1 \<in> set db2 \<and>
   cast_oid (user_id (request_of alice [])) = Some (user task1)"
proof -
  let ?r = "respond 200 (TaskListJson [task1]
       \<lparr>currentPage = Some 1, totalPages = Some 1, totalItems = 1\<rparr>)"
  have mem: "task1 \<in> set (tasks_of ?r)"
    by (simp add: tasks_of_def respond_def)
  from list_returns_only_callers_tasks [OF list_alice mem] list_alice mem
  show ?thesis by simp
qed

text \<open>The other way round: bob's task is not in what alice is shown.\<close>

lemma list_excludes_other_users:
  assumes "get_api_tasks db req = Some r" and "cast_oid (user_id req) = Some b"
    and "user t \<noteq> b"
  shows "t \<notin> set (tasks_of r)"
  using assms
  by (auto simp: get_api_tasks_def Let_def tasks_of_def respond_def set_sort_tasks
      split: if_splits option.splits prod.splits sum.splits
      dest!: in_set_dropD in_set_takeD)

section \<open>C2: the operations by id do not look at the caller\<close>

text \<open>
  The handlers of get by id, update, delete and upload never read \<^verbatim>\<open>req.user\<close>: two
  requests that differ in the caller only get the same answer and leave the same
  collection.
\<close>

lemma by_id_operations_ignore_caller:
  "get_api_tasks_id db (req\<lparr>user_id := a\<rparr>) = get_api_tasks_id db (req\<lparr>user_id := b\<rparr>)"
  "put_api_tasks_id now db (req\<lparr>user_id := a\<rparr>) = put_api_tasks_id now db (req\<lparr>user_id := b\<rparr>)"
  "delete_api_tasks_id db (req\<lparr>user_id := a\<rparr>) = delete_api_tasks_id db (req\<lparr>user_id := b\<rparr>)"
  "post_api_tasks_id_upload now db (req\<lparr>user_id := a\<rparr>) =
     post_api_tasks_id_upload now db (req\<lparr>user_id := b\<rparr>)"
  by (simp_all add: get_api_tasks_id_def get_handler_def put_api_tasks_id_def
      put_handler_def validateTask_def delete_api_tasks_id_def post_api_tasks_id_upload_def
      cong: option.case_cong if_cong)

text \<open>Bob deletes the task of alice.\<close>

lemma delete_by_other_caller:
  "delete_api_tasks_id db2 (request_of bob id1) =
     ([task2], respond 200 (MessageJson ''Task deleted successfully''))"
  by (simp add: delete_api_tasks_id_def request_of_def cast_id1 findById_db2)
    (simp add: db2_def task1_def)

text \<open>
  C2. The claim's instance is that bob's \<^verbatim>\<open>GET /api/tasks/:id\<close> for the task of alice
  returns 200 with the task. The handler answers 500 instead: evaluating the unbound
  name \<^verbatim>\<open>mongoose\<close> throws before the task is looked up.
\<close>

theorem get_by_id_of_other_caller_is_500:
  "get_api_tasks_id db2 (request_of bob id1) =
     (db2, respond 500 (ErrorJson (MessageOf (ReferenceError ''mongoose is not defined''))))"
  by (simp add: get_api_tasks_id_def get_handler_def taskRoutes_mongoose_def)

text \<open>With the name bound, the same request returns the task of alice to bob.\<close>

lemma get_handler_bound_other_caller:
  "get_handler (Some (\<lambda>s. cast_oid s \<noteq> None)) db2 (request_of bob id1) =
     (db2, respond 200 (TaskJson task1))"
  by (simp add: get_handler_def request_of_def cast_id1 findById_db2)

section \<open>C3: get by id on a malformed or unknown id\<close>

text \<open>
  C3. The claim is 400 for a malformed id and 404 for a well-formed id that matches no
  task. The handler answers 500 to both, as to every request.
\<close>

theorem get_by_id_bad_ids_are_500:
  "get_api_tasks_id db2 (request_of alice ''not-an-id'') =
     (db2, respond 500 (ErrorJson (MessageOf (ReferenceError ''mongoose is not defined'')))) \<and>
   get_api_tasks_id db2 (request_of alice id3) =
     (db2, respond 500 (ErrorJson (MessageOf (ReferenceError ''mongoose is not defined''))))"
  by (simp add: get_api_tasks_id_def get_handler_def taskRoutes_mongoose_def)

lemma get_by_id_always_500:
  "get_api_tasks_id db req =
     (db, respond 500 (ErrorJson (MessageOf (ReferenceError ''mongoose is not defined''))))"
  by (simp add: get_api_tasks_id_def get_handler_def taskRoutes_mongoose_def)

text \<open>
  The branches the handler has for the two cases are reached once \<^verbatim>\<open>mongoose\<close> is bound:
  an id the validity test refuses gets 400, a valid id that casts and matches no task
  gets 404.
\<close>

lemma get_handler_bound_malformed:
  "\<not> isValid (param_id req) \<Longrightarrow>
   get_handler (Some isValid) db req =
     (db, respond 400 (ErrorJson (Text ''Invalid task ID format'')))"
  by (simp add: get_handler_def)

lemma get_handler_bound_missing:
  "isValid (param_id req) \<Longrightarrow> cast_oid (param_id req) = Some i \<Longrightarrow>
   findById db i = None \<Longrightarrow>
   get_handler (Some isValid) db req = (db, respond 404 (MessageJson ''Task not found''))"
  by (simp add: get_handler_def)

section \<open>C4: the list with a search parameter\<close>

text \<open>
  C4. The claim is 200 with the tasks and the pagination for every list request, those
  with a \<^verbatim>\<open>search\<close> parameter included. A request with a non-empty \<^verbatim>\<open>search\<close> is
  answered 500: the handler touches \<^verbatim>\<open>filter\<close> before its declaration.
\<close>

theorem list_with_search_is_500:
  "get_api_tasks db2 (request_of alice [] \<lparr>query := [(''search'', ''milk'')]\<rparr>) =
     Some (respond 500 (ErrorJson (MessageOf (ReferenceError
       (''Cannot access '' @ [CHR 0x27] @ ''filter'' @ [CHR 0x27] @
        '' before initialization'')))))"
  by (simp add: get_api_tasks_def request_of_def truthy_def)

lemma list_any_search_is_500:
  assumes "map_of (query req) ''search'' = Some s" and "s \<noteq> []"
  shows "get_api_tasks db req =
     Some (respond 500 (ErrorJson (MessageOf (ReferenceError
       (''Cannot access '' @ [CHR 0x27] @ ''filter'' @ [CHR 0x27] @
        '' before initialization'')))))"
  using assms by (simp add: get_api_tasks_def truthy_def)

text \<open>
  Without \<^verbatim>\<open>search\<close>, with a \<^verbatim>\<open>sort\<close> that names its paths and a caller whose id
  casts, a request within the model gets 200 with the tasks and the pagination.
\<close>

lemma list_without_search_is_200:
  assumes "\<not> truthy (map_of (query req) ''search'')"
    and "sort_spec (case map_of (query req) ''sort'' of None \<Rightarrow> ''createdAt'' | Some s \<Rightarrow> s) =
           Inr spec"
    and "cast_oid (user_id req) = Some uid"
    and "get_api_tasks db req = Some r"
  shows "code r = 200 \<and> (\<exists>ts pg. payload r = TaskListJson ts pg)"
  using assms
  by (auto simp: get_api_tasks_def Let_def respond_def
      split: if_splits option.splits prod.splits)

text \<open>An empty \<^verbatim>\<open>sort\<close> is answered 500 as well: \<^verbatim>\<open>sort\<close> refuses the empty name.\<close>

lemma list_with_empty_sort_is_500:
  "get_api_tasks db2 (request_of alice [] \<lparr>query := [(''sort'', [])]\<rparr>) =
     Some (respond 500 (ErrorJson (MessageOf (Error
       (''Invalid field '' @ dq [] @ '' passed to sort()'')))))"
  by (simp add: get_api_tasks_def request_of_def truthy_def sort_spec_def)

text \<open>So is a \<^verbatim>\<open>sort\<close> of a lone \<^verbatim>\<open>-\<close>; a path named twice takes the later direction.\<close>

lemma sort_spec_examples:
  "sort_spec ''-'' = Inl (Error (''Invalid field '' @ dq [] @ '' passed to sort()''))"
  "sort_spec ''a  b'' = Inl (Error (''Invalid field '' @ dq [] @ '' passed to sort()''))"
  "sort_spec ''a -a b'' = Inr [(''a'', False), (''b'', True)]"
  by (simp_all add: sort_spec_def special_properties_def set_sort_def)

section \<open>C5: the pagination\<close>









section \<open>C6: creating without a title\<close>

text \<open>
  C6 as stated fails for a body that is no object. The JSON parser passes an array on,
  an array has no \<^verbatim>\<open>title\<close>, and the validator refuses it for its type: 400, no task
  created, but the message does not have \<^verbatim>\<open>Title is required\<close> in it.
\<close>

theorem create_without_title_counterexample:
  "\<not> has_field (JArr []) ''title'' \<and>
   post_api_tasks 5 id3 db2 (request_of alice [] \<lparr>body := JArr []\<rparr>) =
     (db2, respond 400 (ErrorJson (Text (dq ''value'' @ '' must be of type object'')))) \<and>
   \<not> contains (dq ''value'' @ '' must be of type object'') ''Title is required''"
  by (simp add: has_field_def post_api_tasks_def validateTask_def schema_validate_def
      request_of_def dq_def)

lemma contains_self: "contains s s"
  by (cases s) simp_all

lemma schema_validate_without_title:
  assumes "\<not> has_field b ''title''"
  shows "\<exists>msg. schema_validate b = Some msg \<and> (is_object b \<longrightarrow> msg = ''Title is required'')"
proof (cases b)
  case (JObj fs)
  with assms have "map_of fs ''title'' = None"
    by (simp add: has_field_def map_of_eq_None_iff)
  with JObj show ?thesis
    by (simp add: schema_validate_def)
qed (simp_all add: schema_validate_def is_object_def)

text \<open>
  C6, amended. A \<^verbatim>\<open>POST /api/tasks\<close> whose body has no \<^verbatim>\<open>title\<close> property is answered
  400 and the collection is left as it was: no task is created. When the body is an
  object, the error message is \<^verbatim>\<open>Title is required\<close>.
\<close>

theorem create_without_title:
  assumes "\<not> has_field (body req) ''title''"
  shows "fst (post_api_tasks now fresh db req) = db \<and>
         code (snd (post_api_tasks now fresh db req)) = 400 \<and>
         (is_object (body req) \<longrightarrow>
            error_text (snd (post_api_tasks now fresh db req)) = Some ''Title is required'')"
proof -
  from schema_validate_without_title [OF assms] obtain msg
    where v: "schema_validate (body req) = Some msg"
      and m: "is_object (body req) \<longrightarrow> msg = ''Title is required''"
    by blast
  from v have "post_api_tasks now fresh db req = (db, respond 400 (ErrorJson (Text msg)))"
    by (simp add: post_api_tasks_def validateTask_def)
  with m show ?thesis
    by (simp add: respond_def error_text_def)
qed

theorem create_without_title_witness:
  "\<not> has_field (body (request_of alice []
       \<lparr>body := JObj [(''description'', JStr ''no title'')]\<rparr>)) ''title'' \<and>
   is_object (body (request_of alice []
       \<lparr>body := JObj [(''description'', JStr ''no title'')]\<rparr>)) \<and>
   fst (post_api_tasks 5 id3 db2 (request_of alice []
       \<lparr>body := JObj [(''description'', JStr ''no title'')]\<rparr>)) = db2 \<and>
   code (snd (post_api_tasks 5 id3 db2 (request_of alice []
       \<lparr>body := JObj [(''description'', JStr ''no title'')]\<rparr>))) = 400 \<and>
   error_text (snd (post_api_tasks 5 id3 db2 (request_of alice []
       \<lparr>body := JObj [(''description'', JStr ''no title'')]\<rparr>))) = Some ''Title is required'' \<and>
   contains ''Title is required'' ''Title is required''"
proof -
  let ?req = "request_of alice [] \<lparr>body := JObj [(''description'', JStr ''no title'')]\<rparr>"
  have h: "\<not> has_field (body ?req) ''title''"
    by (simp add: request_of_def has_field_def)
  have o: "is_object (body ?req)"
    by (simp add: request_of_def is_object_def)
  from create_without_title [OF h, of 5 id3 db2] h o show ?thesis
    by simp
qed

section \<open>C7: updating to a status outside the enum\<close>

lemma schema_validate_bad_status:
  assumes "map_of fs ''status'' = Some v" and "v \<notin> set (map JStr status_enum)"
  shows "schema_validate (JObj fs) \<noteq> None"
proof (cases "check_title (map_of fs ''title'')")
  case (Some e)
  then show ?thesis by (simp add: schema_validate_def)
next
  case None
  note title_ok = this
  show ?thesis
  proof (cases "check_description (map_of fs ''description'')")
    case (Some e)
    with title_ok show ?thesis by (simp add: schema_validate_def)
  next
    case None
    from assms have "check_status (map_of fs ''status'') \<noteq> None"
      by (simp add: check_status_def)
    with title_ok None show ?thesis
      by (auto simp: schema_validate_def)
  qed
qed

text \<open>
  C7. A \<^verbatim>\<open>PUT /api/tasks/:id\<close> whose body has a \<^verbatim>\<open>status\<close> that is none of the three
  strings of the enum is answered 400 by the validator, and the collection is left as
  it was.
\<close>

theorem update_with_bad_status_is_400:
  assumes "body req = JObj fs" and "map_of fs ''status'' = Some v"
    and "v \<notin> set (map JStr status_enum)"
  shows "\<exists>msg. put_api_tasks_id now db req = (db, respond 400 (ErrorJson (Text msg)))"
proof -
  from schema_validate_bad_status [OF assms(2,3)] assms(1)
  obtain msg where "schema_validate (body req) = Some msg"
    by auto
  then have "put_api_tasks_id now db req = (db, respond 400 (ErrorJson (Text msg)))"
    by (simp add: put_api_tasks_id_def validateTask_def)
  then show ?thesis ..
qed

theorem update_with_bad_status_is_400_witness:
  "body (request_of alice id1
       \<lparr>body := JObj [(''title'', JStr ''Write report''), (''status'', JStr ''Done'')]\<rparr>) =
     JObj [(''title'', JStr ''Write report''), (''status'', JStr ''Done'')] \<and>
   map_of [(''title'', JStr ''Write report''), (''status'', JStr ''Done'')] ''status'' =
     Some (JStr ''Done'') \<and>
   JStr ''Done'' \<notin> set (map JStr status_enum) \<and>
   (\<exists>msg. put_api_tasks_id 5 db2 (request_of alice id1
       \<lparr>body := JObj [(''title'', JStr ''Write report''), (''status'', JStr ''Done'')]\<rparr>) =
     (db2, respond 400 (ErrorJson (Text msg))))"
proof -
  let ?fs = "[(''title'', JStr ''Write report''), (''status'', JStr ''Done'')]"
  let ?req = "request_of alice id1 \<lparr>body := JObj ?fs\<rparr>"
  have b: "body ?req = JObj ?fs"
    by (simp add: request_of_def)
  have s: "map_of ?fs ''status'' = Some (JStr ''Done'')"
    by simp
  have n: "JStr ''Done'' \<notin> set (map JStr status_enum)"
    by (simp add: status_enum_def)
  from update_with_bad_status_is_400 [OF b s n, of 5 db2] b s n show ?thesis
    by blast
qed

text \<open>With a status of the enum the same request goes through and changes the task.\<close>

lemma update_with_good_status:
  "put_api_tasks_id 5 db2 (request_of bob id1
       \<lparr>body := JObj [(''title'', JStr ''Write report''), (''status'', JStr ''Completed'')]\<rparr>) =
     ([task1\<lparr>status := ''Completed'', updatedAt := 5\<rparr>, task2],
      respond 200 (TaskJson (task1\<lparr>status := ''Completed'', updatedAt := 5\<rparr>)))"
  by (simp add: put_api_tasks_id_def validateTask_def schema_validate_def check_status_def
      status_enum_def schema_keys_def put_handler_def request_of_def body_field_def cast_id1
      findById_db2 trim_examples Let_def)
    (simp add: db2_def task1_def)

section \<open>C8: uploading an image\<close>

text \<open>
  C8. Without a file the upload is answered 400. With a file, for an id that casts to
  the id of a stored task, it is answered 200 and the stored task's image is
  \<^verbatim>\<open>/uploads/\<close> followed by the file's name. The stored tasks satisfy the schema, which
  is what \<^verbatim>\<open>save\<close> validates.
\<close>

theorem upload_sets_image:
  assumes "valid_store db"
  shows "(req_file req = None \<longrightarrow>
            post_api_tasks_id_upload now db req =
              (db, respond 400 (ErrorJson (Text ''No file uploaded'')))) \<and>
         (\<forall>f i t. req_file req = Some f \<and> cast_oid (param_id req) = Some i \<and>
                  findById db i = Some t \<longrightarrow>
            code (snd (post_api_tasks_id_upload now db req)) = 200 \<and>
            (\<exists>t'. findById (fst (post_api_tasks_id_upload now db req)) i = Some t' \<and>
                  image_path t' = Some (''/uploads/'' @ f)))"
proof (intro conjI allI impI)
  assume "req_file req = None"
  then show "post_api_tasks_id_upload now db req =
      (db, respond 400 (ErrorJson (Text ''No file uploaded'')))"
    by (simp add: post_api_tasks_id_upload_def)
next
  fix f i t
  assume h: "req_file req = Some f \<and> cast_oid (param_id req) = Some i \<and>
    findById db i = Some t"
  then have found: "findById db i = Some t" by simp
  from valid_store_findById [OF assms found] have ok: "doc_errors t = []"
    by (simp add: valid_doc_def)
  then have ok': "doc_errors (t\<lparr>image_path := Some (''/uploads/'' @ f)\<rparr>) = []"
    by (simp add: doc_errors_def)
  from h ok' show "code (snd (post_api_tasks_id_upload now db req)) = 200"
    by (simp add: post_api_tasks_id_upload_def Let_def respond_def)
  show "\<exists>t'. findById (fst (post_api_tasks_id_upload now db req)) i = Some t' \<and>
      image_path t' = Some (''/uploads/'' @ f)"
  proof (cases "image_path t = Some (''/uploads/'' @ f)")
    case True
    with h ok' have "fst (post_api_tasks_id_upload now db req) = db"
      by (simp add: post_api_tasks_id_upload_def Let_def)
    with found True show ?thesis by simp
  next
    case False
    let ?saved = "t\<lparr>image_path := Some (''/uploads/'' @ f), updatedAt := now\<rparr>"
    from h ok' False have "fst (post_api_tasks_id_upload now db req) = replace_doc i ?saved db"
      by (simp add: post_api_tasks_id_upload_def Let_def)
    moreover from findById_SomeD [OF found] have "task_id ?saved = i" by simp
    ultimately have "findById (fst (post_api_tasks_id_upload now db req)) i = Some ?saved"
      using findById_replace [OF found] by simp
    then show ?thesis by simp
  qed
qed

lemma upload_by_bob:
  "post_api_tasks_id_upload 7 db2 (request_of bob id1 \<lparr>req_file := Some ''pic.png''\<rparr>) =
     ([task1\<lparr>image_path := Some ''/uploads/pic.png'', updatedAt := 7\<rparr>, task2],
      respond 200 (UploadJson ''Image uploaded successfully''
        (task1\<lparr>image_path := Some ''/uploads/pic.png'', updatedAt := 7\<rparr>)))"
  by (simp add: post_api_tasks_id_upload_def request_of_def cast_id1 findById_db2 Let_def)
    (simp add: db2_def task1_def doc_errors_def status_enum_def)

theorem upload_sets_image_witness:
  "valid_store db2 \<and>
   req_file (request_of bob id1) = None \<and>
   post_api_tasks_id_upload 7 db2 (request_of bob id1) =
     (db2, respond 400 (ErrorJson (Text ''No file uploaded''))) \<and>
   req_file (request_of bob id1 \<lparr>req_file := Some ''pic.png''\<rparr>) = Some ''pic.png'' \<and>
   cast_oid (param_id (request_of bob id1 \<lparr>req_file := Some ''pic.png''\<rparr>)) = Some id1 \<and>
   findById db2 id1 = Some task1 \<and>
   code (snd (post_api_tasks_id_upload 7 db2
     (request_of bob id1 \<lparr>req_file := Some ''pic.png''\<rparr>))) = 200 \<and>
   (\<exists>t'. findById (fst (post_api_tasks_id_upload 7 db2
            (request_of bob id1 \<lparr>req_file := Some ''pic.png''\<rparr>))) id1 = Some t' \<and>
         image_path t' = Some (''/uploads/'' @ ''pic.png''))"
proof -
  let ?req = "request_of bob id1 \<lparr>req_file := Some ''pic.png''\<rparr>"
  have nofile: "req_file (request_of bob id1) = None"
    by (simp add: request_of_def)
  have withfile: "req_file ?req = Some ''pic.png''"
    by (simp add: request_of_def)
  have cast: "cast_oid (param_id ?req) = Some id1"
    by (simp add: request_of_def cast_id1)
  note a = upload_sets_image [OF valid_store_db2, of "request_of bob id1" 7]
  note b = upload_sets_image [OF valid_store_db2, of ?req 7]
  from a nofile have first: "post_api_tasks_id_upload 7 db2 (request_of bob id1) =
      (db2, respond 400 (ErrorJson (Text ''No file uploaded'')))"
    by blast
  from b withfile cast findById_db2(1)
  have second: "code (snd (post_api_tasks_id_upload 7 db2 ?req)) = 200 \<and>
      (\<exists>t'. findById (fst (post_api_tasks_id_upload 7 db2 ?req)) id1 = Some t' \<and>
            image_path t' = Some (''/uploads/'' @ ''pic.png''))"
    by blast
  from valid_store_db2 nofile first withfile cast findById_db2(1) second show ?thesis
    by blast
qed

section \<open>C9: what the upload leaves alone\<close>

text \<open>
  C9. Whatever the upload answers, a successful one in particular, the collection
  after it holds the same tasks in the same places with the id, title, description,
  status, owning user and creation time they had: only an image path and an update
  time can differ.
\<close>

theorem upload_frame:
  "map frame (fst (post_api_tasks_id_upload now db req)) = map frame db"
proof (cases "req_file req")
  case None
  then show ?thesis
    by (simp add: post_api_tasks_id_upload_def)
next
  case (Some f)
  show ?thesis
  proof (cases "cast_oid (param_id req)")
    case None
    with Some show ?thesis
      by (simp add: post_api_tasks_id_upload_def)
  next
    case (Some i)
    note cast = this
    show ?thesis
    proof (cases "findById db i")
      case None
      with \<open>req_file req = Some f\<close> cast show ?thesis
        by (simp add: post_api_tasks_id_upload_def)
    next
      case (Some t)
      have "frame (t\<lparr>image_path := Some (''/uploads/'' @ f), updatedAt := now\<rparr>) = frame t"
        by (simp add: frame_def)
      from map_frame_replace [OF Some this] \<open>req_file req = Some f\<close> cast Some
      show ?thesis
        by (simp add: post_api_tasks_id_upload_def Let_def)
    qed
  qed
qed

text \<open>The tasks with another id are left as they are, image and update time included.\<close>

lemma replace_doc_other:
  "task_id t' = i \<Longrightarrow> j \<noteq> i \<Longrightarrow> findById (replace_doc i t' db) j = findById db j"
  unfolding findById_def by (induction db) auto

section \<open>C10: a created task is pending\<close>

text \<open>
  C10. A \<^verbatim>\<open>POST /api/tasks\<close> answered 201 has appended one task to the collection, the
  task the response carries, and its status is \<^verbatim>\<open>Pending\<close> whatever the body says about
  \<^verbatim>\<open>status\<close>: the handler passes the title, the description and the caller on and
  nothing else.
\<close>

theorem created_task_is_pending:
  assumes "post_api_tasks now fresh db req = (db', r)" and "code r = 201"
  shows "\<exists>t. payload r = TaskJson t \<and> db' = db @ [t] \<and> status t = ''Pending'' \<and>
             cast_oid (user_id req) = Some (user t)"
proof (cases "schema_validate (body req)")
  case (Some msg)
  with assms show ?thesis
    by (auto simp: post_api_tasks_def validateTask_def respond_def)
next
  case None
  with assms have "post_handler now fresh db req = (db', r)"
    by (simp add: post_api_tasks_def validateTask_def)
  with assms(2) show ?thesis
    by (auto simp: post_handler_def Let_def respond_def status_default_def
        split: if_splits option.splits)
qed

lemma create_with_status:
  "post_api_tasks 5 id3 db2 (request_of alice []
       \<lparr>body := JObj [(''title'', JStr ''Call home''), (''status'', JStr ''Completed'')]\<rparr>) =
     (db2 @ [\<lparr>task_id = id3, title = ''Call home'', description = None,
              status = ''Pending'', user = alice, image_path = None,
              createdAt = 5, updatedAt = 5\<rparr>],
      respond 201 (TaskJson \<lparr>task_id = id3, title = ''Call home'', description = None,
              status = ''Pending'', user = alice, image_path = None,
              createdAt = 5, updatedAt = 5\<rparr>))"
  by (simp add: post_api_tasks_def validateTask_def schema_validate_def check_status_def
      status_enum_def schema_keys_def post_handler_def request_of_def body_field_def
      cast_alice trim_examples Let_def status_default_def)
    (simp add: db2_def task1_def task2_def ids_neq)

theorem created_task_is_pending_witness:
  "post_api_tasks 5 id3 db2 (request_of alice []
       \<lparr>body := JObj [(''title'', JStr ''Call home''), (''status'', JStr ''Completed'')]\<rparr>) =
     (db2 @ [\<lparr>task_id = id3, title = ''Call home'', description = None,
              status = ''Pending'', user = alice, image_path = None,
              createdAt = 5, updatedAt = 5\<rparr>],
      respond 201 (TaskJson \<lparr>task_id = id3, title = ''Call home'', description = None,
              status = ''Pending'', user = alice, image_path = None,
              createdAt = 5, updatedAt = 5\<rparr>)) \<and>
   code (respond 201 (TaskJson \<lparr>task_id = id3, title = ''Call home'', description = None,
              status = ''Pending'', user = alice, image_path = None,
              createdAt = 5, updatedAt = 5\<rparr>)) = 201 \<and>
   (\<exists>t. payload (respond 201 (TaskJson \<lparr>task_id = id3, title = ''Call home'',
              description = None, status = ''Pending'', user = alice, image_path = None,
              createdAt = 5, updatedAt = 5\<rparr>)) = TaskJson t \<and>
        status t = ''Pending'')"
proof -
  let ?t = "\<lparr>task_id = id3, title = ''Call home'', description = None,
              status = ''Pending'', user = alice, image_path = None,
              createdAt = 5, updatedAt = 5\<rparr>"
  have c: "code (respond 201 (TaskJson ?t)) = 201"
    by (simp add: respond_def)
  from created_task_is_pending [OF create_with_status c] create_with_status c
  show ?thesis by blast
qed

text \<open>
  A title that is white space only passes the validator and fails the schema after the
  trim: the no-break space U+00A0 is white space, and the request is answered 500.
\<close>

lemma create_with_blank_title:
  "post_api_tasks 5 id3 db2 (request_of alice []
       \<lparr>body := JObj [(''title'', JStr [CHR 0xC2, CHR 0xA0])]\<rparr>) =
     (db2, respond 500 (ErrorJson (MessageOf (ValidationError [''title'']))))"
  by (simp add: post_api_tasks_def validateTask_def schema_validate_def check_status_def
      schema_keys_def post_handler_def request_of_def body_field_def cast_alice Let_def
      trim_def trim_start_def white_space_def is_space_def)

section \<open>The schema is an invariant of the collection\<close>

text \<open>
  Every handler leaves a collection of tasks that satisfy the schema when it was given
  one: the hypothesis of C8 holds of every collection the service builds.
\<close>

lemma post_keeps_valid_store:
  "valid_store db \<Longrightarrow> valid_store (fst (post_api_tasks now fresh db req))"
  by (auto simp: post_api_tasks_def validateTask_def post_handler_def Let_def
      valid_store_def valid_doc_def doc_errors_def status_default_def status_enum_def
      split: option.splits if_splits)

lemma put_keeps_valid_store:
  assumes "valid_store db"
  shows "valid_store (fst (put_api_tasks_id now db req))"
proof (cases "schema_validate (body req)")
  case (Some msg)
  with assms show ?thesis
    by (simp add: put_api_tasks_id_def validateTask_def)
next
  case None
  have "valid_store (fst (put_handler now db req))"
    using assms valid_store_findById [OF assms]
    by (auto simp: put_handler_def Let_def valid_doc_def doc_errors_def
        intro!: valid_store_replace split: option.splits if_splits)
  with None show ?thesis
    by (simp add: put_api_tasks_id_def validateTask_def)
qed

lemma delete_keeps_valid_store:
  "valid_store db \<Longrightarrow> valid_store (fst (delete_api_tasks_id db req))"
  by (auto simp: delete_api_tasks_id_def valid_store_delete split: option.splits)

lemma upload_keeps_valid_store:
  "valid_store db \<Longrightarrow> valid_store (fst (post_api_tasks_id_upload now db req))"
  by (auto simp: post_api_tasks_id_upload_def Let_def valid_doc_def doc_errors_def
      intro!: valid_store_replace split: option.splits if_splits)

end
